theory Spec2Isabelle
  imports Complex_Main "HOL-Library.Multiset"
begin

section \<open>The ranking dashboard (interactive_dashboard.py)\<close>

text \<open>
  The script is re-executed from top to bottom on every interaction. One execution reads
  the CSV file, asks three sliders for the selection, validates the pair count, selects
  the rows, and builds one trace per algorithm. \<^verbatim>\<open>st.stop()\<close> and an uncaught
  exception both end the execution at that line; they are the \<open>Inl\<close> results below.
\<close>

subsection \<open>Values\<close>

text \<open>
  A float64 cell. Only comparisons are used by the script: \<^verbatim>\<open>==\<close> in the row filter,
  \<^verbatim>\<open><=\<close> inside the slider and in \<^verbatim>\<open>min\<close>/\<^verbatim>\<open>max\<close> of a column. NaN compares
  false with everything, itself included.
\<close>

datatype float64 = NaN | NegInf | Num real | PosInf

definition float_eq :: "float64 \<Rightarrow> float64 \<Rightarrow> bool" where
  "float_eq a b = (a \<noteq> NaN \<and> b \<noteq> NaN \<and> a = b)"

fun float_le :: "float64 \<Rightarrow> float64 \<Rightarrow> bool" where
  "float_le NaN b = False"
| "float_le a NaN = False"
| "float_le NegInf b = True"
| "float_le a PosInf = True"
| "float_le (Num x) (Num y) = (x \<le> y)"
| "float_le a b = False"

text \<open>How one execution can end before the chart is drawn.\<close>

datatype halt =
    FileNotFound
  | MissingColumn string
  | AstypeError
  | StreamlitAPIException
  | ValueError
  | InvalidSelection int int
  | EmptySelection
  | ZeroDivisionError

text \<open>
  A row of the data frame after \<^verbatim>\<open>load_data\<close>. The Algorithm column is not coerced
  by the loader, so its cells stay as they were read: a label of the raw cell type \<open>'l\<close>,
  or \<open>None\<close> for a blank cell, which pandas reads as NaN.
\<close>

record 'l row =
  noise_level :: float64
  num_items :: int
  num_pairs :: int
  algorithm :: "'l option"
  top_n :: int
  accuracy :: float64

subsection \<open>load_data (lines 19-40)\<close>

text \<open>
  What \<^verbatim>\<open>pd.read_csv\<close> returns: the column names and, for each row, the cell under
  each column name, \<open>None\<close> when the cell is blank. A missing file is \<open>None\<close>.
\<close>

record 'c frame =
  columns :: "string list"
  cells :: "(string \<Rightarrow> 'c option) list"

definition expected_columns :: "string list" where
  "expected_columns =
     [''Noise Level'', ''Num_Items'', ''Num_Pairs'', ''Algorithm'', ''Top-n'', ''Accuracy'']"

text \<open>
  \<^verbatim>\<open>astype(float)\<close>, \<^verbatim>\<open>astype(int)\<close> and \<^verbatim>\<open>round(2)\<close> are pandas'; they are
  parameters here. A conversion that raises is \<open>None\<close>.
\<close>

definition coerce_row ::
  "('c option \<Rightarrow> float64 option) \<Rightarrow> ('c option \<Rightarrow> int option) \<Rightarrow>
   (float64 \<Rightarrow> float64) \<Rightarrow> (string \<Rightarrow> 'c option) \<Rightarrow> 'c row option" where
  "coerce_row astype_float astype_int round2 r =
     (case astype_float (r ''Noise Level'') of
        None \<Rightarrow> None
      | Some nl \<Rightarrow>
     (case astype_int (r ''Num_Items'') of
        None \<Rightarrow> None
      | Some ni \<Rightarrow>
     (case astype_int (r ''Num_Pairs'') of
        None \<Rightarrow> None
      | Some np \<Rightarrow>
     (case astype_int (r ''Top-n'') of
        None \<Rightarrow> None
      | Some tn \<Rightarrow>
     (case astype_float (r ''Accuracy'') of
        None \<Rightarrow> None
      | Some ac \<Rightarrow>
          Some \<lparr>noise_level = round2 nl, num_items = ni, num_pairs = np,
                algorithm = r ''Algorithm'', top_n = tn, accuracy = ac\<rparr>)))))"

definition load_data ::
  "('c option \<Rightarrow> float64 option) \<Rightarrow> ('c option \<Rightarrow> int option) \<Rightarrow>
   (float64 \<Rightarrow> float64) \<Rightarrow> 'c frame option \<Rightarrow> halt + 'c row list" where
  "load_data astype_float astype_int round2 file =
     (case file of
        None \<Rightarrow> Inl FileNotFound
      | Some df \<Rightarrow>
          (case find (\<lambda>col. col \<notin> set (columns df)) expected_columns of
             Some col \<Rightarrow> Inl (MissingColumn col)
           | None \<Rightarrow>
               (case those (map (coerce_row astype_float astype_int round2) (cells df)) of
                  None \<Rightarrow> Inl AstypeError
                | Some rows \<Rightarrow> Inr rows)))"

subsection \<open>The sidebar (lines 47-87)\<close>

text \<open>
  \<^verbatim>\<open>Series.min()\<close> and \<^verbatim>\<open>Series.max()\<close>. On an integer column with no rows pandas
  returns NaN, here \<open>None\<close>. On a float column NaN cells are skipped, and the result is
  NaN when nothing is left.
\<close>

fun col_min :: "int list \<Rightarrow> int option" where
  "col_min [] = None"
| "col_min (x # xs) = Some (fold min xs x)"

fun col_max :: "int list \<Rightarrow> int option" where
  "col_max [] = None"
| "col_max (x # xs) = Some (fold max xs x)"

definition float_col_min :: "float64 list \<Rightarrow> float64" where
  "float_col_min xs =
     (case filter (\<lambda>x. x \<noteq> NaN) xs of
        [] \<Rightarrow> NaN
      | y # ys \<Rightarrow> fold (\<lambda>b a. if float_le b a then b else a) ys y)"

definition float_col_max :: "float64 list \<Rightarrow> float64" where
  "float_col_max xs =
     (case filter (\<lambda>x. x \<noteq> NaN) xs of
        [] \<Rightarrow> NaN
      | y # ys \<Rightarrow> fold (\<lambda>b a. if float_le a b then b else a) ys y)"

text \<open>
  \<^verbatim>\<open>math.comb(n, k)\<close>: the number of ways to choose \<open>k\<close> items from \<open>n\<close>, that is
  \<open>n! / (k! * (n - k)!)\<close> when \<open>k \<le> n\<close> and zero when \<open>k > n\<close>; it raises ValueError when
  an argument is negative.
\<close>

definition comb :: "int \<Rightarrow> int \<Rightarrow> halt + int" where
  "comb n k =
     (if n < 0 \<or> k < 0 then Inl ValueError
      else if k > n then Inr 0
      else Inr (int (fact (nat n) div (fact (nat k) * fact (nat (n - k))))))"

text \<open>
  Python's \<^verbatim>\<open>min(a, b)\<close> and \<^verbatim>\<open>max(a, b)\<close>: the first argument, unless the second
  is strictly smaller (strictly greater). \<open>le\<close> is the comparison of the value type.
\<close>

definition py_min :: "('a \<Rightarrow> 'a \<Rightarrow> bool) \<Rightarrow> 'a \<Rightarrow> 'a \<Rightarrow> 'a" where
  "py_min le a b = (if le b a \<and> \<not> le a b then b else a)"

definition py_max :: "('a \<Rightarrow> 'a \<Rightarrow> bool) \<Rightarrow> 'a \<Rightarrow> 'a \<Rightarrow> 'a" where
  "py_max le a b = (if le a b \<and> \<not> le b a then b else a)"

text \<open>
  \<^verbatim>\<open>st.sidebar.slider(min_value, max_value, value, step)\<close> is Streamlit's widget. It does
  not reject a default (the argument \<^verbatim>\<open>value\<close>, here \<open>dflt\<close>) that lies outside the
  bounds it is given; it widens the bounds instead:
  \<^verbatim>\<open>
    # Ensure that min <= value(s) <= max, adjusting the bounds as necessary.
    min_value = min(min_value, max_value)
    max_value = max(min_value, max_value)
    min_value = min(value[0], min_value)
    max_value = max(value[0], max_value)
  \<close>
  The widget then returns the position the user asked for when that lies between the
  adjusted bounds, and the default when it does not (a widget whose bounds changed starts
  again from its default). The \<^verbatim>\<open>step\<close> grid and the widget's check that the bounds are
  numbers a browser can represent are left out: the model delivers every position between
  the adjusted bounds, which includes every position the widget can deliver, the default
  among them.
\<close>

definition slider :: "('a \<Rightarrow> 'a \<Rightarrow> bool) \<Rightarrow> 'a \<Rightarrow> 'a \<Rightarrow> 'a \<Rightarrow> 'a \<Rightarrow> 'a" where
  "slider le min_value max_value dflt requested =
     (let min_value1 = py_min le min_value max_value;
          max_value1 = py_max le min_value1 max_value;
          min_value2 = py_min le dflt min_value1;
          max_value2 = py_max le dflt max_value1
      in if le min_value2 requested \<and> le requested max_value2 then requested else dflt)"

text \<open>Lines 48-58: the noise slider.\<close>

definition noise_slider :: "'l row list \<Rightarrow> float64 \<Rightarrow> float64" where
  "noise_slider df requested =
     (let noise_min = float_col_min (map noise_level df);
          noise_max = float_col_max (map noise_level df)
      in slider float_le noise_min noise_max noise_min requested)"

text \<open>
  Lines 61-71: the item slider. On a frame with no rows the bounds are NaN, of another type
  than the integer \<^verbatim>\<open>step\<close>, and the widget raises.
\<close>

definition items_slider :: "'l row list \<Rightarrow> int \<Rightarrow> halt + int" where
  "items_slider df requested =
     (case (col_min (map num_items df), col_max (map num_items df)) of
        (Some items_min, Some items_max) \<Rightarrow>
          Inr (slider (\<le>) items_min items_max items_min requested)
      | _ \<Rightarrow> Inl StreamlitAPIException)"

text \<open>Line 74.\<close>

definition max_possible_pairs :: "int \<Rightarrow> halt + int" where
  "max_possible_pairs items_value = comb items_value 2"

text \<open>
  Lines 77-83: the bounds handed to the pair slider, \<^verbatim>\<open>min_value=pairs_min\<close> and
  \<^verbatim>\<open>max_value=min(pairs_max, max_possible_pairs)\<close>.
\<close>

definition pairs_slider_bounds :: "'l row list \<Rightarrow> int \<Rightarrow> halt + (int \<times> int)" where
  "pairs_slider_bounds df max_pairs =
     (case (col_min (map num_pairs df), col_max (map num_pairs df)) of
        (Some pairs_min, Some pairs_max) \<Rightarrow> Inr (pairs_min, min pairs_max max_pairs)
      | _ \<Rightarrow> Inl StreamlitAPIException)"

text \<open>Lines 77-87: the pair slider.\<close>

definition pairs_slider :: "'l row list \<Rightarrow> int \<Rightarrow> int \<Rightarrow> halt + int" where
  "pairs_slider df max_pairs requested =
     (case pairs_slider_bounds df max_pairs of
        Inl e \<Rightarrow> Inl e
      | Inr (lo, hi) \<Rightarrow> Inr (slider (\<le>) lo hi lo requested))"

subsection \<open>Validation and row selection (lines 89-107)\<close>

text \<open>
  Lines 90-92. The message of \<^verbatim>\<open>st.sidebar.error\<close> is built from \<^verbatim>\<open>items_value\<close> and
  \<^verbatim>\<open>max_possible_pairs\<close>; they are the arguments of \<open>InvalidSelection\<close>.
\<close>

definition validate :: "int \<Rightarrow> int \<Rightarrow> int \<Rightarrow> halt + unit" where
  "validate items_value pairs_value max_pairs =
     (if pairs_value > max_pairs then Inl (InvalidSelection items_value max_pairs)
      else Inr ())"

text \<open>Lines 95-99.\<close>

definition exact_match :: "'l row list \<Rightarrow> float64 \<Rightarrow> int \<Rightarrow> int \<Rightarrow> 'l row list" where
  "exact_match df noise_value items_value pairs_value =
     filter (\<lambda>r. float_eq (noise_level r) noise_value \<and>
                 num_items r = items_value \<and>
                 num_pairs r = pairs_value) df"

text \<open>Lines 95-107: the emptiness check comes before the Top-n filter.\<close>

definition filtered_df :: "'l row list \<Rightarrow> float64 \<Rightarrow> int \<Rightarrow> int \<Rightarrow> halt + 'l row list" where
  "filtered_df df noise_value items_value pairs_value =
     (let matched = exact_match df noise_value items_value pairs_value
      in if matched = [] then Inl EmptySelection
         else Inr (filter (\<lambda>r. top_n r \<le> items_value) matched))"

subsection \<open>The chart (lines 109-129)\<close>

text \<open>
  \<^verbatim>\<open>Series.unique()\<close>: the distinct values in order of first appearance. A blank
  label is kept, once.
\<close>

definition unique :: "'a list \<Rightarrow> 'a list" where
  "unique xs = rev (remdups (rev xs))"

record ('l, 'col) trace =
  name :: "'l option"
  x :: "int list"
  y :: "float64 list"
  color :: 'col

text \<open>
  The comparison \<^verbatim>\<open>filtered_df['Algorithm'] == alg\<close> of line 121. A blank label is NaN,
  which pandas' \<^verbatim>\<open>==\<close> finds equal to nothing, itself included.
\<close>

definition label_eq :: "'l option \<Rightarrow> 'l option \<Rightarrow> bool" where
  "label_eq a b = (a \<noteq> None \<and> b \<noteq> None \<and> a = b)"

text \<open>
  Line 121. \<^verbatim>\<open>sort_values('Top-n')\<close> sorts ascending; the order it leaves among rows
  of equal Top-n is not used below.
\<close>

definition alg_data :: "'l row list \<Rightarrow> 'l option \<Rightarrow> 'l row list" where
  "alg_data fdf alg = sort_key top_n (filter (\<lambda>r. label_eq (algorithm r) alg) fdf)"

text \<open>
  Lines 122-129: the trace \<^verbatim>\<open>go.Scatter(...)\<close> of one algorithm. \<open>colors\<close> is the
  palette (\<^verbatim>\<open>qualitative.Dark24\<close> of plotly).
\<close>

definition scatter ::
  "'col list \<Rightarrow> 'l row list \<Rightarrow> nat \<Rightarrow> 'l option \<Rightarrow> ('l, 'col) trace" where
  "scatter colors fdf idx alg =
     \<lparr>name = alg,
      x = map top_n (alg_data fdf alg),
      y = map accuracy (alg_data fdf alg),
      color = colors ! (idx mod length colors)\<rparr>"

text \<open>
  Lines 120-129: the loop over \<^verbatim>\<open>enumerate(algorithms)\<close>, adding one trace to the
  figure in each round. \<^verbatim>\<open>idx % len(colors)\<close> raises on an empty palette.
\<close>

fun add_traces ::
  "'col list \<Rightarrow> 'l row list \<Rightarrow> nat \<Rightarrow> 'l option list \<Rightarrow> ('l, 'col) trace list \<Rightarrow>
   halt + ('l, 'col) trace list" where
  "add_traces colors fdf idx [] fig = Inr fig"
| "add_traces colors fdf idx (alg # algs) fig =
     (if colors = [] then Inl ZeroDivisionError
      else add_traces colors fdf (Suc idx) algs (fig @ [scatter colors fdf idx alg]))"

definition figure :: "'col list \<Rightarrow> 'l row list \<Rightarrow> halt + ('l, 'col) trace list" where
  "figure colors fdf = add_traces colors fdf 0 (unique (map algorithm fdf)) []"

subsection \<open>One execution of the script\<close>

text \<open>What a completed execution shows: the chart, the values in its title, the table.\<close>

record ('l, 'col) page =
  chart :: "('l, 'col) trace list"
  title :: "float64 \<times> int \<times> int"
  shown :: "'l row list"

text \<open>Lines 89-154, from the values the sliders delivered.\<close>

definition render ::
  "'col list \<Rightarrow> 'l row list \<Rightarrow> float64 \<Rightarrow> int \<Rightarrow> int \<Rightarrow> int \<Rightarrow> halt + ('l, 'col) page" where
  "render colors df noise_value items_value pairs_value max_pairs =
     (case validate items_value pairs_value max_pairs of
        Inl e \<Rightarrow> Inl e
      | Inr _ \<Rightarrow>
          (case filtered_df df noise_value items_value pairs_value of
             Inl e \<Rightarrow> Inl e
           | Inr fdf \<Rightarrow>
               (case figure colors fdf of
                  Inl e \<Rightarrow> Inl e
                | Inr fig \<Rightarrow>
                    Inr \<lparr>chart = fig,
                         title = (noise_value, items_value, pairs_value),
                         shown = fdf\<rparr>)))"

text \<open>Lines 48-154, from the loaded frame and the three positions the user asks for.\<close>

definition dashboard ::
  "'col list \<Rightarrow> 'l row list \<Rightarrow> float64 \<Rightarrow> int \<Rightarrow> int \<Rightarrow> halt + ('l, 'col) page" where
  "dashboard colors df req_noise req_items req_pairs =
     (let noise_value = noise_slider df req_noise
      in case items_slider df req_items of
           Inl e \<Rightarrow> Inl e
         | Inr items_value \<Rightarrow>
             (case max_possible_pairs items_value of
                Inl e \<Rightarrow> Inl e
              | Inr max_pairs \<Rightarrow>
                  (case pairs_slider df max_pairs req_pairs of
                     Inl e \<Rightarrow> Inl e
                   | Inr pairs_value \<Rightarrow>
                       render colors df noise_value items_value pairs_value max_pairs)))"

text \<open>The whole script, lines 42-154.\<close>

definition script ::
  "('c option \<Rightarrow> float64 option) \<Rightarrow> ('c option \<Rightarrow> int option) \<Rightarrow>
   (float64 \<Rightarrow> float64) \<Rightarrow> 'col list \<Rightarrow>
   'c frame option \<Rightarrow> float64 \<Rightarrow> int \<Rightarrow> int \<Rightarrow> halt + ('c, 'col) page" where
  "script astype_float astype_int round2 colors file req_noise req_items req_pairs =
     (case load_data astype_float astype_int round2 file of
        Inl e \<Rightarrow> Inl e
      | Inr df \<Rightarrow> dashboard colors df req_noise req_items req_pairs)"

subsection \<open>The reference definition of the pair bound\<close>

text \<open>
  The specification's words: \<open>C(n,2)\<close> is \<open>n(n-1)/2\<close> for an integer \<open>n \<ge> 0\<close>, and \<open>0\<close>
  when \<open>n < 2\<close>.
\<close>

definition C2_spec :: "int \<Rightarrow> int" where
  "C2_spec n = (if n < 2 then 0 else n * (n - 1) div 2)"

subsection \<open>A small data set\<close>

text \<open>
  Three rows of one selection, a fourth row of the same selection whose Top-n exceeds the
  item count, and a row of another selection.
\<close>

definition example_df :: "string row list" where
  "example_df =
     [\<lparr>noise_level = Num 0.1, num_items = 500, num_pairs = 1000, algorithm = Some ''A'',
       top_n = 10, accuracy = Num 0.9\<rparr>,
      \<lparr>noise_level = Num 0.1, num_items = 500, num_pairs = 1000, algorithm = Some ''B'',
       top_n = 5, accuracy = Num 0.7\<rparr>,
      \<lparr>noise_level = Num 0.1, num_items = 500, num_pairs = 1000, algorithm = Some ''A'',
       top_n = 5, accuracy = Num 0.8\<rparr>,
      \<lparr>noise_level = Num 0.1, num_items = 500, num_pairs = 1000, algorithm = Some ''B'',
       top_n = 600, accuracy = Num 0.6\<rparr>,
      \<lparr>noise_level = Num 0.2, num_items = 600, num_pairs = 2000, algorithm = Some ''A'',
       top_n = 5, accuracy = Num 0.5\<rparr>]"

definition example_page :: "(string, string) page" where
  "example_page =
     \<lparr>chart = [\<lparr>name = Some ''A'', x = [5, 10], y = [Num 0.8, Num 0.9], color = ''red''\<rparr>,
               \<lparr>name = Some ''B'', x = [5], y = [Num 0.7], color = ''blue''\<rparr>],
      title = (Num 0.1, 500, 1000),
      shown = take 3 example_df\<rparr>"

text \<open>A file that lacks the Accuracy column.\<close>

definition short_frame :: "string frame" where
  "short_frame =
     \<lparr>columns = [''Noise Level'', ''Num_Items'', ''Num_Pairs'', ''Algorithm'', ''Top-n''],
      cells = []\<rparr>"

text \<open>
  A data set whose first row has a Top-n above its item count. Its first row is the
  selection the three sliders start from.
\<close>

definition oversized_df :: "string row list" where
  "oversized_df =
     [\<lparr>noise_level = Num 0.1, num_items = 100, num_pairs = 100, algorithm = Some ''A'',
       top_n = 200, accuracy = Num 0.8\<rparr>,
      \<lparr>noise_level = Num 0.2, num_items = 200, num_pairs = 200, algorithm = Some ''A'',
       top_n = 5, accuracy = Num 0.9\<rparr>]"

text \<open>
  A data set whose smallest pair count exceeds \<open>C(10, 2) = 45\<close>, the bound of its smallest
  item count.
\<close>

definition cramped_df :: "string row list" where
  "cramped_df =
     [\<lparr>noise_level = Num 0.1, num_items = 10, num_pairs = 100, algorithm = Some ''A'',
       top_n = 5, accuracy = Num 0.8\<rparr>,
      \<lparr>noise_level = Num 0.2, num_items = 20, num_pairs = 200, algorithm = Some ''A'',
       top_n = 5, accuracy = Num 0.9\<rparr>]"

text \<open>A filtered view in which one row has a blank Algorithm cell.\<close>

definition blank_label_df :: "string row list" where
  "blank_label_df =
     [\<lparr>noise_level = Num 0.1, num_items = 500, num_pairs = 1000, algorithm = Some ''A'',
       top_n = 5, accuracy = Num 0.8\<rparr>,
      \<lparr>noise_level = Num 0.1, num_items = 500, num_pairs = 1000, algorithm = None,
       top_n = 10, accuracy = Num 0.9\<rparr>]"

section \<open>Properties\<close>

subsection \<open>The example, evaluated\<close>

lemma example_filtered:
  "filtered_df example_df (Num 0.1) 500 1000 = Inr (take 3 example_df)"
  by (simp add: filtered_df_def exact_match_def example_df_def float_eq_def)

lemma example_figure:
  "figure [''red'', ''blue''] (take 3 example_df) =
     Inr [\<lparr>name = Some ''A'', x = [5, 10], y = [Num 0.8, Num 0.9], color = ''red''\<rparr>,
          \<lparr>name = Some ''B'', x = [5], y = [Num 0.7], color = ''blue''\<rparr>]"
  by (simp add: figure_def unique_def example_df_def scatter_def alg_data_def label_eq_def)

lemma example_render:
  "render [''red'', ''blue''] example_df (Num 0.1) 500 1000 124750 = Inr example_page"
  by (simp add: render_def validate_def example_filtered example_figure example_page_def)

lemma example_noise_slider: "noise_slider example_df (Num 0.1) = Num 0.1"
  by (simp add: noise_slider_def slider_def py_min_def py_max_def float_col_min_def
      float_col_max_def example_df_def)

lemma example_items_slider: "items_slider example_df 500 = Inr 500"
  by (simp add: items_slider_def slider_def py_min_def py_max_def example_df_def)

lemma example_pairs_slider: "pairs_slider example_df 124750 1000 = Inr 1000"
  by (simp add: pairs_slider_def pairs_slider_bounds_def slider_def py_min_def py_max_def
      example_df_def)

subsection \<open>The pair bound\<close>

lemma fact_quot_choose: "k \<le> n \<Longrightarrow> (fact n :: nat) div (fact k * fact (n - k)) = n choose k"
  by (simp add: binomial_fact')

lemma comb_choose: "0 \<le> n \<Longrightarrow> 0 \<le> k \<Longrightarrow> comb n k = Inr (int (nat n choose nat k))"
  unfolding comb_def
  by (auto simp: fact_quot_choose nat_diff_distrib nat_le_eq_zle)

lemma int_choose_two: "0 \<le> n \<Longrightarrow> int (nat n choose 2) = n * (n - 1) div 2"
proof -
  assume n: "0 \<le> n"
  have "int (nat n choose 2) = int (nat n * (nat n - 1) div 2)"
    by (simp add: choose_two)
  also have "\<dots> = int (nat n) * int (nat n - 1) div 2"
    by (simp add: zdiv_int)
  also have "int (nat n - 1) = (if n = 0 then 0 else n - 1)"
    using n by auto
  finally show ?thesis using n by auto
qed

lemma max_possible_pairs_eq: "0 \<le> n \<Longrightarrow> max_possible_pairs n = Inr (n * (n - 1) div 2)"
  by (simp add: max_possible_pairs_def comb_choose int_choose_two)

lemma small_pair_bound: "0 \<le> n \<Longrightarrow> n < 2 \<Longrightarrow> n * (n - 1) div 2 = (0::int)"
proof -
  assume "0 \<le> n" and "n < 2"
  then have "n = 0 \<or> n = 1" by arith
  then show ?thesis by auto
qed

lemma max_possible_pairs_spec: "0 \<le> n \<Longrightarrow> max_possible_pairs n = Inr (C2_spec n)"
  by (simp add: max_possible_pairs_eq C2_spec_def small_pair_bound)

lemma max_possible_pairs_negative: "n < 0 \<Longrightarrow> max_possible_pairs n = Inl ValueError"
  by (simp add: max_possible_pairs_def comb_def)

lemma max_possible_pairs_Inr:
  "max_possible_pairs n = Inr m \<Longrightarrow> 0 \<le> n \<and> m = C2_spec n"
proof (cases "n < 0")
  case True
  assume "max_possible_pairs n = Inr m"
  with True show ?thesis by (simp add: max_possible_pairs_negative)
next
  case False
  assume "max_possible_pairs n = Inr m"
  with False show ?thesis by (simp add: max_possible_pairs_spec)
qed

text \<open>
  Claim C4. The bound the program computes at line 74, \<^verbatim>\<open>comb(items_value, 2)\<close>, is the
  reference \<open>C(n,2)\<close> on the integers \<open>n \<ge> 0\<close> on which the reference is defined: it is
  \<open>n(n-1)/2\<close> for \<open>n \<ge> 2\<close> and \<open>0\<close> for \<open>n < 2\<close>. (For a negative \<open>n\<close>, which is no
  item count, \<^verbatim>\<open>math.comb\<close> raises instead: \<open>max_possible_pairs_negative\<close>.)
\<close>

theorem max_possible_pairs_reference:
  "0 \<le> n \<Longrightarrow>
   max_possible_pairs n = Inr (C2_spec n) \<and>
   (2 \<le> n \<longrightarrow> max_possible_pairs n = Inr (n * (n - 1) div 2)) \<and>
   (n < 2 \<longrightarrow> max_possible_pairs n = Inr 0)"
  by (simp add: max_possible_pairs_spec C2_spec_def)

theorem max_possible_pairs_reference_witness:
  "max_possible_pairs 5 = Inr 10 \<and> max_possible_pairs 1 = Inr 0 \<and> C2_spec 5 = 10"
  using max_possible_pairs_reference [of 5] max_possible_pairs_reference [of 1]
  by (simp add: C2_spec_def)

subsection \<open>Validation\<close>

text \<open>
  Claim C3, with the message as line 91 builds it. When the selected pair count is strictly
  greater than \<open>C(num_items, 2)\<close>, as computed at line 74, the execution ends at line 92
  with the sidebar error that names the selected item count and the bound; the selected
  pair count is not part of the message. The result does not depend on the data frame, so
  no row is filtered.
\<close>

theorem invalid_selection_halts:
  "max_possible_pairs items_value = Inr max_pairs \<Longrightarrow> max_pairs < pairs_value \<Longrightarrow>
   max_pairs = C2_spec items_value \<and>
   validate items_value pairs_value max_pairs = Inl (InvalidSelection items_value max_pairs) \<and>
   render colors df noise_value items_value pairs_value max_pairs =
     Inl (InvalidSelection items_value max_pairs)"
  by (simp add: max_possible_pairs_Inr validate_def render_def)

theorem invalid_selection_halts_witness:
  "max_possible_pairs 500 = Inr 124750 \<and> (124750::int) < 124751 \<and>
   render [''red''] example_df (Num 0.1) 500 124751 124750 = Inl (InvalidSelection 500 124750)"
  using invalid_selection_halts [of 500 124750 124751 "[''red'']" example_df "Num 0.1"]
    max_possible_pairs_eq [of 500]
  by simp

text \<open>
  Claim C3 says that the error names the offending values. It does not name the selected
  pair count: two executions that differ only in their pair counts, both above the bound,
  end with the same error.
\<close>

theorem invalid_selection_omits_pair_count:
  "(124751::int) \<noteq> 200000 \<and>
   render [''red''] example_df (Num 0.1) 500 124751 124750 = Inl (InvalidSelection 500 124750) \<and>
   render [''red''] example_df (Num 0.1) 500 200000 124750 = Inl (InvalidSelection 500 124750)"
  by (simp add: render_def validate_def)

subsection \<open>Row selection\<close>

lemma filtered_df_Inr:
  "filtered_df df nv iv pv = Inr fdf \<Longrightarrow>
   fdf = filter (\<lambda>r. float_eq (noise_level r) nv \<and> num_items r = iv \<and> num_pairs r = pv \<and>
                     top_n r \<le> iv) df"
  by (auto simp: filtered_df_def exact_match_def Let_def conj_commute conj_left_commute
           split: if_splits intro: filter_cong)

lemma render_Inr:
  "render colors df nv iv pv mp = Inr pg \<Longrightarrow>
   filtered_df df nv iv pv = Inr (shown pg) \<and> figure colors (shown pg) = Inr (chart pg) \<and>
   pv \<le> mp"
  by (auto simp: render_def validate_def split: sum.splits if_splits)

text \<open>
  Claim C1. The filtered view that a completed execution shows consists of exactly the
  rows of the data set whose noise level, item count and pair count equal the selection
  and whose Top-n is at most the selected item count, in the order of the data set.
\<close>

theorem filtered_view_exact:
  "render colors df noise_value items_value pairs_value max_pairs = Inr pg \<Longrightarrow>
   shown pg = filter (\<lambda>r. float_eq (noise_level r) noise_value \<and>
                           num_items r = items_value \<and>
                           num_pairs r = pairs_value \<and>
                           top_n r \<le> items_value) df \<and>
   (\<forall>r. r \<in> set (shown pg) \<longleftrightarrow>
        r \<in> set df \<and> float_eq (noise_level r) noise_value \<and> num_items r = items_value \<and>
        num_pairs r = pairs_value \<and> top_n r \<le> items_value)"
proof -
  assume "render colors df noise_value items_value pairs_value max_pairs = Inr pg"
  then have "filtered_df df noise_value items_value pairs_value = Inr (shown pg)"
    by (simp add: render_Inr)
  then have a: "shown pg = filter (\<lambda>r. float_eq (noise_level r) noise_value \<and>
                           num_items r = items_value \<and>
                           num_pairs r = pairs_value \<and>
                           top_n r \<le> items_value) df"
    by (rule filtered_df_Inr)
  show ?thesis
    by (rule conjI, rule a, subst a, auto)
qed

theorem filtered_view_exact_witness:
  "render [''red'', ''blue''] example_df (Num 0.1) 500 1000 124750 = Inr example_page \<and>
   shown example_page = take 3 example_df \<and>
   example_df ! 3 \<notin> set (shown example_page) \<and>
   example_df ! 4 \<notin> set (shown example_page)"
proof -
  have a: "shown example_page =
           filter (\<lambda>r. float_eq (noise_level r) (Num 0.1) \<and> num_items r = 500 \<and>
                       num_pairs r = 1000 \<and> top_n r \<le> 500) example_df"
    using filtered_view_exact [OF example_render] by (rule conjunct1)
  have b: "filter (\<lambda>r. float_eq (noise_level r) (Num 0.1) \<and> num_items r = 500 \<and>
                       num_pairs r = 1000 \<and> top_n r \<le> 500) example_df = take 3 example_df"
    by (simp add: example_df_def float_eq_def)
  have c: "example_df ! 3 \<notin> set (take 3 example_df)"
    by (simp add: example_df_def)
  have d: "example_df ! 4 \<notin> set (take 3 example_df)"
    by (simp add: example_df_def)
  show ?thesis using a b c d example_render by simp
qed

subsection \<open>Slider bounds\<close>

lemma col_min_Min: "xs \<noteq> [] \<Longrightarrow> col_min xs = Some (Min (set xs))"
proof (cases xs)
  case Nil
  assume "xs \<noteq> []"
  with Nil show ?thesis by simp
next
  case (Cons a as)
  have "fold min as a = Min (set (a # as))" by (simp only: Min.set_eq_fold)
  with Cons show ?thesis by (simp only: col_min.simps)
qed

lemma col_max_Max: "xs \<noteq> [] \<Longrightarrow> col_max xs = Some (Max (set xs))"
proof (cases xs)
  case Nil
  assume "xs \<noteq> []"
  with Nil show ?thesis by simp
next
  case (Cons a as)
  have "fold max as a = Max (set (a # as))" by (simp only: Max.set_eq_fold)
  with Cons show ?thesis by (simp only: col_max.simps)
qed

lemma pairs_slider_bounds_nonempty:
  "df \<noteq> [] \<Longrightarrow>
   pairs_slider_bounds df mp =
     Inr (Min (num_pairs ` set df), min (Max (num_pairs ` set df)) mp)"
  by (simp add: pairs_slider_bounds_def col_min_Min col_max_Max)

text \<open>
  Claim C7. For a data set with at least one row and a selected item count, the pair
  slider is called with the minimum of the Num_Pairs column as its lower bound and with
  \<open>min(max of the column, C(items_value, 2))\<close> as its upper bound. The bounds are a
  function of the item count of the current execution, so a changed item count gives a
  recomputed upper bound.
\<close>

theorem pairs_slider_bounds_eq:
  "df \<noteq> [] \<Longrightarrow> max_possible_pairs items_value = Inr max_pairs \<Longrightarrow>
   pairs_slider_bounds df max_pairs =
     Inr (Min (num_pairs ` set df), min (Max (num_pairs ` set df)) (C2_spec items_value)) \<and>
   pairs_slider df max_pairs requested =
     Inr (slider (\<le>) (Min (num_pairs ` set df))
            (min (Max (num_pairs ` set df)) (C2_spec items_value))
            (Min (num_pairs ` set df)) requested)"
proof -
  assume ne: "df \<noteq> []" and mp: "max_possible_pairs items_value = Inr max_pairs"
  from mp have "max_pairs = C2_spec items_value" by (simp add: max_possible_pairs_Inr)
  with ne show ?thesis by (simp add: pairs_slider_def pairs_slider_bounds_nonempty)
qed

lemma example_pairs_bounds: "pairs_slider_bounds example_df 124750 = Inr (1000, 2000)"
  by (simp add: pairs_slider_bounds_def example_df_def)

lemma example_pairs_bounds_small: "pairs_slider_bounds example_df 1225 = Inr (1000, 1225)"
  by (simp add: pairs_slider_bounds_def example_df_def)

theorem pairs_slider_bounds_eq_witness:
  "example_df \<noteq> [] \<and> max_possible_pairs 500 = Inr 124750 \<and> max_possible_pairs 50 = Inr 1225 \<and>
   pairs_slider_bounds example_df 124750 = Inr (1000, 2000) \<and>
   pairs_slider_bounds example_df 1225 = Inr (1000, 1225) \<and>
   Min (num_pairs ` set example_df) = 1000 \<and>
   min (Max (num_pairs ` set example_df)) (C2_spec 500) = 2000 \<and>
   min (Max (num_pairs ` set example_df)) (C2_spec 50) = 1225"
proof -
  have ne: "example_df \<noteq> []" by (simp add: example_df_def)
  have m500: "max_possible_pairs 500 = Inr 124750" using max_possible_pairs_eq [of 500] by simp
  have m50: "max_possible_pairs 50 = Inr 1225" using max_possible_pairs_eq [of 50] by simp
  show ?thesis
    using pairs_slider_bounds_eq [OF ne m500] pairs_slider_bounds_eq [OF ne m50]
      ne m500 m50 example_pairs_bounds example_pairs_bounds_small
    by simp
qed

subsection \<open>What the pair slider delivers\<close>

lemma slider_int_upper: "slider (\<le>) lo hi d r \<le> max d (hi::int)"
  by (auto simp: slider_def py_min_def py_max_def Let_def)

lemma slider_int_lower: "min d (min lo hi) \<le> slider (\<le>) lo (hi::int) d r"
  by (auto simp: slider_def py_min_def py_max_def Let_def)

lemma pairs_slider_bounds_Inl: "pairs_slider_bounds df mp = Inl e \<Longrightarrow> e = StreamlitAPIException"
  by (auto simp: pairs_slider_bounds_def split: option.splits)

lemma pairs_slider_bounds_Inr:
  "pairs_slider_bounds df mp = Inr (lo, hi) \<Longrightarrow>
   col_min (map num_pairs df) = Some lo \<and> hi \<le> mp"
  by (auto simp: pairs_slider_bounds_def split: option.splits)

lemma pairs_slider_Inl: "pairs_slider df mp r = Inl e \<Longrightarrow> e = StreamlitAPIException"
  by (auto simp: pairs_slider_def split: sum.splits dest: pairs_slider_bounds_Inl)

lemma pairs_slider_le:
  "pairs_slider df mp r = Inr pv \<Longrightarrow> col_min (map num_pairs df) = Some pmin \<Longrightarrow> pmin \<le> mp \<Longrightarrow>
   pv \<le> mp"
proof -
  assume p: "pairs_slider df mp r = Inr pv" and c: "col_min (map num_pairs df) = Some pmin"
    and le: "pmin \<le> mp"
  from p obtain lo hi where b: "pairs_slider_bounds df mp = Inr (lo, hi)"
    and v: "pv = slider (\<le>) lo hi lo r"
    by (auto simp: pairs_slider_def split: sum.splits)
  from b c have "lo = pmin" "hi \<le> mp" by (auto dest: pairs_slider_bounds_Inr)
  with le slider_int_upper [of lo hi lo r] v show ?thesis by simp
qed

lemma items_slider_Inl: "items_slider df r = Inl e \<Longrightarrow> e = StreamlitAPIException"
  by (auto simp: items_slider_def split: option.splits)

lemma items_slider_lower:
  "items_slider df r = Inr iv \<Longrightarrow> \<exists>r0 \<in> set df. num_items r0 \<le> iv"
proof -
  assume a: "items_slider df r = Inr iv"
  then have ne: "df \<noteq> []" by (auto simp: items_slider_def)
  then have mn: "col_min (map num_items df) = Some (Min (num_items ` set df))"
    and mx: "col_max (map num_items df) = Some (Max (num_items ` set df))"
    by (simp_all add: col_min_Min col_max_Max)
  have "Min (num_items ` set df) \<le> Max (num_items ` set df)"
    using ne by (simp add: Min_le_iff)
  with a mn mx slider_int_lower [of "Min (num_items ` set df)" "Min (num_items ` set df)"
      "Max (num_items ` set df)" r]
  have "Min (num_items ` set df) \<le> iv" by (simp add: items_slider_def)
  moreover have "Min (num_items ` set df) \<in> num_items ` set df"
    using ne by (intro Min_in) simp_all
  ultimately show ?thesis by auto
qed

lemma C2_spec_mono: "a \<le> b \<Longrightarrow> C2_spec a \<le> C2_spec b"
proof -
  assume ab: "a \<le> b"
  show ?thesis
  proof (cases "a < 2")
    case True
    have "0 \<le> b * (b - 1) div 2" if "2 \<le> b" using that by simp
    with True show ?thesis by (simp add: C2_spec_def)
  next
    case False
    with ab have "a * (a - 1) \<le> b * (b - 1)" by (intro mult_mono) simp_all
    then have "a * (a - 1) div 2 \<le> b * (b - 1) div 2" by (rule zdiv_mono1) simp
    with False ab show ?thesis by (simp add: C2_spec_def)
  qed
qed

lemma col_min_le: "col_min (map f df) = Some m \<Longrightarrow> r \<in> set df \<Longrightarrow> m \<le> f r"
proof -
  assume a: "col_min (map f df) = Some m" and r: "r \<in> set df"
  then have "df \<noteq> []" by auto
  with a have "m = Min (f ` set df)" by (simp add: col_min_Min)
  with r show ?thesis by simp
qed

lemma filtered_df_Inl: "filtered_df df nv iv pv = Inl e \<Longrightarrow> e = EmptySelection"
  by (auto simp: filtered_df_def Let_def split: if_splits)

lemma add_traces_Inl: "add_traces colors fdf idx algs fig = Inl e \<Longrightarrow> e = ZeroDivisionError"
  by (induction colors fdf idx algs fig rule: add_traces.induct) (auto split: if_splits)

lemma figure_Inl: "figure colors fdf = Inl e \<Longrightarrow> e = ZeroDivisionError"
  by (auto simp: figure_def dest: add_traces_Inl)

lemma max_possible_pairs_Inl: "max_possible_pairs n = Inl e \<Longrightarrow> e = ValueError"
  by (auto simp: max_possible_pairs_def comb_def split: if_splits)

lemma render_valid: "pv \<le> mp \<Longrightarrow> render colors df nv iv pv mp \<noteq> Inl (InvalidSelection a b)"
  by (auto simp: render_def validate_def split: sum.splits dest: filtered_df_Inl figure_Inl)

lemma dashboard_valid:
  assumes inv: "\<forall>r \<in> set df. num_pairs r \<le> C2_spec (num_items r)"
  shows "dashboard colors df rn ri rp \<noteq> Inl (InvalidSelection a b)"
proof
  assume d: "dashboard colors df rn ri rp = Inl (InvalidSelection a b)"
  from d obtain iv where iv: "items_slider df ri = Inr iv"
    by (auto simp: dashboard_def Let_def split: sum.splits dest: items_slider_Inl)
  from d iv obtain mp where mp: "max_possible_pairs iv = Inr mp"
    by (auto simp: dashboard_def Let_def split: sum.splits dest: max_possible_pairs_Inl)
  from d iv mp obtain pv where pv: "pairs_slider df mp rp = Inr pv"
    by (auto simp: dashboard_def Let_def split: sum.splits dest: pairs_slider_Inl)
  from d iv mp pv
  have r: "render colors df (noise_slider df rn) iv pv mp = Inl (InvalidSelection a b)"
    by (simp add: dashboard_def Let_def)
  from iv obtain r0 where r0: "r0 \<in> set df" "num_items r0 \<le> iv"
    by (blast dest: items_slider_lower)
  from pv obtain lo hi where "pairs_slider_bounds df mp = Inr (lo, hi)"
    by (auto simp: pairs_slider_def split: sum.splits)
  then have lo: "col_min (map num_pairs df) = Some lo" by (simp add: pairs_slider_bounds_Inr)
  then have "lo \<le> num_pairs r0" using r0(1) by (rule col_min_le)
  also have "\<dots> \<le> C2_spec (num_items r0)" using inv r0(1) by simp
  also have "\<dots> \<le> C2_spec iv" using r0(2) by (rule C2_spec_mono)
  also have "\<dots> = mp" using max_possible_pairs_Inr [OF mp] by simp
  finally have "pv \<le> mp" using pv lo by (simp add: pairs_slider_le)
  with r show False by (simp add: render_valid)
qed

text \<open>
  Claim C10, for data whose smallest pair count is within the bound. The pair slider is
  given the upper bound \<open>min(pairs_max, C(items_value, 2))\<close>, but it widens its bounds to
  hold its default, the smallest pair count of the data. When that smallest pair count is at most
  \<open>C(items_value, 2)\<close>, every pair count the slider delivers is at most \<open>C(items_value, 2)\<close>
  and passes the check of lines 90-92. This is the case at every selection when each row of
  the data has \<open>num_pairs \<le> C(num_items, 2)\<close>: then no execution ends with the
  invalid-selection error.
\<close>

theorem slider_selection_valid:
  "(col_min (map num_pairs df) = Some pairs_min \<and> pairs_min \<le> max_pairs \<and>
    pairs_slider df max_pairs requested = Inr pairs_value \<longrightarrow>
      pairs_value \<le> max_pairs \<and> validate items_value pairs_value max_pairs = Inr ()) \<and>
   ((\<forall>r \<in> set df. num_pairs r \<le> C2_spec (num_items r)) \<longrightarrow>
      dashboard colors df req_noise req_items req_pairs \<noteq> Inl (InvalidSelection a b))"
proof (intro conjI impI)
  assume h: "col_min (map num_pairs df) = Some pairs_min \<and> pairs_min \<le> max_pairs \<and>
    pairs_slider df max_pairs requested = Inr pairs_value"
  then show "pairs_value \<le> max_pairs" by (blast intro: pairs_slider_le)
  then show "validate items_value pairs_value max_pairs = Inr ()" by (simp add: validate_def)
next
  assume "\<forall>r \<in> set df. num_pairs r \<le> C2_spec (num_items r)"
  then show "dashboard colors df req_noise req_items req_pairs \<noteq> Inl (InvalidSelection a b)"
    by (rule dashboard_valid)
qed

lemma example_dashboard:
  "dashboard [''red'', ''blue''] example_df (Num 0.1) 500 1000 = Inr example_page"
  by (simp add: dashboard_def example_noise_slider example_items_slider example_pairs_slider
      max_possible_pairs_eq example_render)

theorem slider_selection_valid_witness:
  "col_min (map num_pairs example_df) = Some 1000 \<and> (1000::int) \<le> 1225 \<and>
   pairs_slider example_df 1225 1200 = Inr 1200 \<and> (1200::int) \<le> 1225 \<and>
   validate 50 1200 1225 = Inr () \<and>
   num_pairs (example_df ! 0) \<le> C2_spec (num_items (example_df ! 0)) \<and>
   num_pairs (example_df ! 4) \<le> C2_spec (num_items (example_df ! 4)) \<and>
   dashboard [''red'', ''blue''] example_df (Num 0.1) 500 1000 = Inr example_page"
proof -
  have a: "col_min (map num_pairs example_df) = Some 1000"
    by (simp add: example_df_def)
  have b: "pairs_slider example_df 1225 1200 = Inr 1200"
    by (simp add: pairs_slider_def example_pairs_bounds_small slider_def py_min_def py_max_def)
  have c: "\<forall>r \<in> set example_df. num_pairs r \<le> C2_spec (num_items r)"
    by (simp add: example_df_def C2_spec_def)
  have c0: "num_pairs (example_df ! 0) \<le> C2_spec (num_items (example_df ! 0))"
    by (simp add: example_df_def C2_spec_def)
  have c4: "num_pairs (example_df ! 4) \<le> C2_spec (num_items (example_df ! 4))"
    by (simp add: example_df_def C2_spec_def)
  from slider_selection_valid
    [where df = example_df and max_pairs = 1225 and requested = 1200 and pairs_min = 1000 and
      pairs_value = 1200 and items_value = 50 and colors = "[''red'', ''blue'']" and
      req_noise = "Num 0.1" and req_items = 500 and req_pairs = 1000 and a = 500 and b = 124750]
    a b c
  have "validate 50 1200 1225 = Inr () \<and>
    dashboard [''red'', ''blue''] example_df (Num 0.1) 500 1000 \<noteq> Inl (InvalidSelection 500 124750)"
    by simp
  with a b c0 c4 example_dashboard show ?thesis by simp
qed

lemma cramped_items_slider: "items_slider cramped_df 10 = Inr 10"
  by (simp add: items_slider_def slider_def py_min_def py_max_def cramped_df_def)

lemma cramped_pairs_bounds: "pairs_slider_bounds cramped_df 45 = Inr (100, 45)"
  by (simp add: pairs_slider_bounds_def cramped_df_def)

lemma cramped_pairs_slider: "pairs_slider cramped_df 45 100 = Inr 100"
  by (simp add: pairs_slider_def cramped_pairs_bounds slider_def py_min_def py_max_def)

text \<open>
  Claim C10 does not hold for all data. On \<open>cramped_df\<close>, at the selection the sliders
  start from, the item count is 10 and the bound is 45; the pair slider is given the bounds 100 and 45,
  delivers its default 100, and the execution ends with the invalid-selection error.
\<close>

theorem slider_delivers_invalid_selection:
  "max_possible_pairs 10 = Inr 45 \<and>
   pairs_slider_bounds cramped_df 45 = Inr (100, 45) \<and>
   pairs_slider cramped_df 45 100 = Inr 100 \<and>
   \<not> (100 \<le> (45::int)) \<and>
   dashboard [''red''] cramped_df (Num 0.1) 10 100 = Inl (InvalidSelection 10 45)"
proof -
  have m: "max_possible_pairs 10 = Inr 45" using max_possible_pairs_eq [of 10] by simp
  have r: "render [''red''] cramped_df (noise_slider cramped_df (Num 0.1)) 10 100 45
             = Inl (InvalidSelection 10 45)"
    by (simp add: render_def validate_def)
  have "dashboard [''red''] cramped_df (Num 0.1) 10 100 = Inl (InvalidSelection 10 45)"
    by (simp add: dashboard_def Let_def cramped_items_slider m cramped_pairs_slider r)
  with m cramped_pairs_bounds cramped_pairs_slider show ?thesis by simp
qed

subsection \<open>Loader failures\<close>

lemma load_data_missing:
  "c \<in> set expected_columns \<Longrightarrow> c \<notin> set (columns fr) \<Longrightarrow>
   \<exists>c'. c' \<in> set expected_columns \<and> c' \<notin> set (columns fr) \<and>
        load_data af ai r2 (Some fr) = Inl (MissingColumn c')"
proof -
  assume c: "c \<in> set expected_columns" "c \<notin> set (columns fr)"
  then have "find (\<lambda>col. col \<notin> set (columns fr)) expected_columns \<noteq> None"
    by (auto simp: find_None_iff)
  then obtain c' where f: "find (\<lambda>col. col \<notin> set (columns fr)) expected_columns = Some c'"
    by auto
  then have "c' \<in> set expected_columns \<and> c' \<notin> set (columns fr)"
    by (auto simp: find_Some_iff)
  with f show ?thesis by (auto simp: load_data_def)
qed

text \<open>
  Claim C8. When the file is not found, and when one of the six expected columns is
  absent from the file, \<^verbatim>\<open>load_data\<close> ends the execution with its error message
  (naming a missing column in the second case), and the script ends there: no slider, no
  chart and no table follow.
\<close>

theorem load_data_failures_halt:
  "load_data astype_float astype_int rounding None = Inl FileNotFound \<and>
   script astype_float astype_int rounding colors None req_noise req_items req_pairs
     = Inl FileNotFound \<and>
   (c \<in> {''Noise Level'', ''Num_Items'', ''Num_Pairs'', ''Algorithm'', ''Top-n'', ''Accuracy''} \<and>
    c \<notin> set (columns fr) \<longrightarrow>
      (\<exists>c'. c' \<in> set expected_columns \<and> c' \<notin> set (columns fr) \<and>
            load_data astype_float astype_int rounding (Some fr) = Inl (MissingColumn c') \<and>
            script astype_float astype_int rounding colors (Some fr) req_noise req_items req_pairs
              = Inl (MissingColumn c')))"
proof -
  have a: "load_data astype_float astype_int rounding None = Inl FileNotFound"
    by (simp add: load_data_def)
  have b: "script astype_float astype_int rounding colors None req_noise req_items req_pairs
     = Inl FileNotFound"
    by (simp add: script_def a)
  have s: "set expected_columns =
      {''Noise Level'', ''Num_Items'', ''Num_Pairs'', ''Algorithm'', ''Top-n'', ''Accuracy''}"
    by (simp add: expected_columns_def)
  have "\<exists>c'. c' \<in> set expected_columns \<and> c' \<notin> set (columns fr) \<and>
            load_data astype_float astype_int rounding (Some fr) = Inl (MissingColumn c') \<and>
            script astype_float astype_int rounding colors (Some fr) req_noise req_items req_pairs
              = Inl (MissingColumn c')"
    if "c \<in> set expected_columns" "c \<notin> set (columns fr)"
    using load_data_missing [OF that, of astype_float astype_int rounding]
    by (auto simp: script_def)
  with a b s show ?thesis by simp
qed

theorem load_data_failures_halt_witness:
  "''Accuracy'' \<in> {''Noise Level'', ''Num_Items'', ''Num_Pairs'', ''Algorithm'', ''Top-n'', ''Accuracy''} \<and>
   ''Accuracy'' \<notin> set (columns short_frame) \<and>
   script (\<lambda>c. None) (\<lambda>c. None) (\<lambda>f. f) [''red''] (Some short_frame) (Num 0.1) 500 1000
     = Inl (MissingColumn ''Accuracy'') \<and>
   script (\<lambda>c. None) (\<lambda>c. None) (\<lambda>f. f) [''red''] (None :: string frame option) (Num 0.1) 500 1000
     = Inl FileNotFound"
proof -
  have a: "''Accuracy'' \<notin> set (columns short_frame)"
    by (simp add: short_frame_def)
  have b: "load_data (\<lambda>c. None) (\<lambda>c. None) (\<lambda>f. f) (Some short_frame)
             = Inl (MissingColumn ''Accuracy'')"
    by (simp add: load_data_def expected_columns_def short_frame_def)
  from load_data_failures_halt
    [where c = "''Accuracy''" and fr = short_frame and astype_float = "\<lambda>c. None" and
      astype_int = "\<lambda>c. None" and rounding = "\<lambda>f. f" and colors = "[''red'']" and
      req_noise = "Num 0.1" and req_items = 500 and req_pairs = 1000]
  show ?thesis using a b by auto
qed

subsection \<open>Traces\<close>

lemma add_traces_Inr:
  "colors \<noteq> [] \<Longrightarrow>
   add_traces colors fdf idx algs fig =
     Inr (fig @ map (\<lambda>(i, a). scatter colors fdf i a) (zip [idx..<idx + length algs] algs))"
proof (induction algs arbitrary: idx fig)
  case Nil
  then show ?case by simp
next
  case (Cons a algs)
  have "[idx..<idx + length (a # algs)] = idx # [Suc idx..<Suc idx + length algs]"
    by (simp add: upt_rec)
  with Cons show ?case by simp
qed

lemma add_traces_no_palette:
  "add_traces [] fdf idx algs fig = (if algs = [] then Inr fig else Inl ZeroDivisionError)"
  by (cases algs) simp_all

lemma figure_Inr:
  "figure colors fdf = Inr fig \<Longrightarrow>
   fig = map (\<lambda>(i, a). scatter colors fdf i a) (enumerate 0 (unique (map algorithm fdf)))"
proof (cases "colors = []")
  case True
  assume "figure colors fdf = Inr fig"
  with True show ?thesis
    by (auto simp: figure_def add_traces_no_palette split: if_splits)
next
  case False
  assume "figure colors fdf = Inr fig"
  with False show ?thesis
    by (simp add: figure_def add_traces_Inr enumerate_eq_zip)
qed

lemma map_name_enumerate:
  "map name (map (\<lambda>(i, a). scatter colors fdf i a) (enumerate n algs)) = algs"
  by (induction algs arbitrary: n) (simp_all add: scatter_def)

lemma figure_names: "figure colors fdf = Inr fig \<Longrightarrow> map name fig = unique (map algorithm fdf)"
  by (auto dest!: figure_Inr simp: map_name_enumerate simp del: map_map)

lemma figure_nth:
  "figure colors fdf = Inr fig \<Longrightarrow> i < length fig \<Longrightarrow>
   fig ! i = scatter colors fdf i (unique (map algorithm fdf) ! i)"
  by (auto dest!: figure_Inr simp: nth_enumerate_eq)

lemma set_unique: "set (unique xs) = set xs"
  by (simp add: unique_def)

lemma distinct_unique: "distinct (unique xs)"
  by (simp add: unique_def)

lemma figure_nth_fields:
  "figure colors fdf = Inr fig \<Longrightarrow> i < length fig \<Longrightarrow>
   name (fig ! i) = unique (map algorithm fdf) ! i \<and>
   x (fig ! i) = map top_n (alg_data fdf (name (fig ! i))) \<and>
   y (fig ! i) = map accuracy (alg_data fdf (name (fig ! i))) \<and>
   color (fig ! i) = colors ! (i mod length colors)"
  by (simp add: figure_nth scatter_def)

lemma sorted_alg_data: "sorted (map top_n (alg_data fdf alg))"
  by (simp add: alg_data_def)

lemma mset_alg_data:
  "mset (alg_data fdf alg) = mset (filter (\<lambda>r. label_eq (algorithm r) alg) fdf)"
  by (simp add: alg_data_def)

lemma label_eq_Some: "label_eq l (Some a) = (l = Some a)"
  by (auto simp: label_eq_def)

lemma label_eq_None: "label_eq l None = False"
  by (simp add: label_eq_def)

lemma points_alg_data:
  "mset (zip (map top_n (alg_data fdf alg)) (map accuracy (alg_data fdf alg))) =
   mset (map (\<lambda>r. (top_n r, accuracy r)) (filter (\<lambda>r. label_eq (algorithm r) alg) fdf))"
proof -
  have "zip (map top_n (alg_data fdf alg)) (map accuracy (alg_data fdf alg)) =
        map (\<lambda>r. (top_n r, accuracy r)) (alg_data fdf alg)"
    by (simp add: zip_map_map zip_same_conv_map)
  then have "mset (zip (map top_n (alg_data fdf alg)) (map accuracy (alg_data fdf alg))) =
        image_mset (\<lambda>r. (top_n r, accuracy r)) (mset (alg_data fdf alg))"
    by simp
  then show ?thesis
    by (simp only: mset_alg_data mset_map)
qed

lemma example_figure_chart:
  "figure [''red'', ''blue''] (take 3 example_df) = Inr (chart example_page)"
  by (simp add: example_figure example_page_def)

lemma example_figure_one_color:
  "figure [''red''] (take 3 example_df) =
     Inr [\<lparr>name = Some ''A'', x = [5, 10], y = [Num 0.8, Num 0.9], color = ''red''\<rparr>,
          \<lparr>name = Some ''B'', x = [5], y = [Num 0.7], color = ''red''\<rparr>]"
  by (simp add: figure_def unique_def example_df_def scatter_def alg_data_def label_eq_def)

text \<open>A blank label gets a trace of its own, with no points: line 121 finds no row for it.\<close>

lemma blank_label_trace_empty:
  "figure [''red''] blank_label_df =
     Inr [\<lparr>name = Some ''A'', x = [5], y = [Num 0.8], color = ''red''\<rparr>,
          \<lparr>name = None, x = [], y = [], color = ''red''\<rparr>]"
  by (simp add: figure_def unique_def blank_label_df_def scatter_def alg_data_def label_eq_def)

text \<open>
  Claim C6. The chart has one trace per label of the filtered view, in order of first
  appearance. The points of each trace are the (Top-n, accuracy) pairs of the rows that line
  121 selects for its label, listed in non-decreasing order of Top-n. For every algorithm
  of the filtered view (a label that is not blank) these are exactly the rows of that
  algorithm.
\<close>

theorem series_sorted_by_top_n:
  "figure colors fdf = Inr fig \<Longrightarrow>
   map name fig = unique (map algorithm fdf) \<and>
   set (map name fig) = algorithm ` set fdf \<and>
   distinct (map name fig) \<and>
   (\<forall>t \<in> set fig.
      sorted (x t) \<and>
      mset (zip (x t) (y t)) =
        mset (map (\<lambda>r. (top_n r, accuracy r))
               (filter (\<lambda>r. label_eq (algorithm r) (name t)) fdf))) \<and>
   (\<forall>a. Some a \<in> algorithm ` set fdf \<longrightarrow>
      (\<exists>t \<in> set fig.
         name t = Some a \<and>
         sorted (x t) \<and>
         mset (zip (x t) (y t)) =
           mset (map (\<lambda>r. (top_n r, accuracy r)) (filter (\<lambda>r. algorithm r = Some a) fdf))))"
proof -
  assume f: "figure colors fdf = Inr fig"
  have n: "map name fig = unique (map algorithm fdf)" using f by (rule figure_names)
  have s: "set (map name fig) = algorithm ` set fdf" by (simp only: n set_unique set_map)
  have d: "distinct (map name fig)" by (simp only: n distinct_unique)
  have e: "sorted (x t) \<and>
      mset (zip (x t) (y t)) =
        mset (map (\<lambda>r. (top_n r, accuracy r))
               (filter (\<lambda>r. label_eq (algorithm r) (name t)) fdf))"
    if "t \<in> set fig" for t
  proof -
    from that obtain i where i: "i < length fig" "fig ! i = t"
      by (auto simp: in_set_conv_nth)
    from figure_nth_fields [OF f i(1)]
    have "x t = map top_n (alg_data fdf (name t))" "y t = map accuracy (alg_data fdf (name t))"
      by (simp_all add: i(2))
    then show ?thesis by (simp only: sorted_alg_data points_alg_data)
  qed
  have g: "\<exists>t \<in> set fig.
         name t = Some a \<and>
         sorted (x t) \<and>
         mset (zip (x t) (y t)) =
           mset (map (\<lambda>r. (top_n r, accuracy r)) (filter (\<lambda>r. algorithm r = Some a) fdf))"
    if "Some a \<in> algorithm ` set fdf" for a
  proof -
    from that s have "Some a \<in> name ` set fig" by simp
    then obtain t where t: "t \<in> set fig" "name t = Some a" by auto
    from e [OF t(1)] t(2)
    have "sorted (x t) \<and>
         mset (zip (x t) (y t)) =
           mset (map (\<lambda>r. (top_n r, accuracy r)) (filter (\<lambda>r. algorithm r = Some a) fdf))"
      by (simp add: label_eq_Some)
    with t show ?thesis by blast
  qed
  show ?thesis
    by (intro conjI ballI allI impI) (rule n, rule s, rule d, simp_all only: e g)
qed

theorem series_sorted_by_top_n_witness:
  "figure [''red'', ''blue''] (take 3 example_df) = Inr (chart example_page) \<and>
   map name (chart example_page) = [Some ''A'', Some ''B''] \<and>
   map x (chart example_page) = [[5, 10], [5]] \<and>
   Some ''A'' \<in> algorithm ` set (take 3 example_df) \<and>
   sorted (x (chart example_page ! 0)) \<and>
   sorted (x (chart example_page ! 1))"
proof -
  have a: "Some ''A'' \<in> algorithm ` set (take 3 example_df)"
    by (simp add: example_df_def)
  from series_sorted_by_top_n [OF example_figure_chart] example_figure_chart a
  show ?thesis by (simp add: example_page_def)
qed

text \<open>
  Claim C9. The colour of a trace is determined by the position of its algorithm in the
  ordered list of algorithm labels: the trace at index \<open>i\<close> gets palette entry
  \<open>i mod\<close> the palette size. Two views with the same ordered list of labels therefore
  get the same assignment of colours to labels.
\<close>

theorem color_by_index:
  "figure colors fdf = Inr fig \<Longrightarrow>
   map (\<lambda>t. (name t, color t)) fig =
     map (\<lambda>(i, a). (a, colors ! (i mod length colors))) (enumerate 0 (unique (map algorithm fdf))) \<and>
   (\<forall>i < length fig. name (fig ! i) = unique (map algorithm fdf) ! i \<and>
                     color (fig ! i) = colors ! (i mod length colors)) \<and>
   (\<forall>fdf' fig'. figure colors fdf' = Inr fig' \<and>
        unique (map algorithm fdf') = unique (map algorithm fdf) \<longrightarrow>
        map (\<lambda>t. (name t, color t)) fig' = map (\<lambda>t. (name t, color t)) fig)"
proof -
  have a: "map (\<lambda>t. (name t, color t)) g =
     map (\<lambda>(i, a). (a, colors ! (i mod length colors))) (enumerate 0 (unique (map algorithm d)))"
    if "figure colors d = Inr g" for d :: "'a row list" and g
    using figure_Inr [OF that] by (simp add: scatter_def case_prod_unfold)
  assume f: "figure colors fdf = Inr fig"
  have b: "name (fig ! i) = unique (map algorithm fdf) ! i \<and>
           color (fig ! i) = colors ! (i mod length colors)" if "i < length fig" for i
    using figure_nth_fields [OF f that] by simp
  have c: "map (\<lambda>t. (name t, color t)) fig' = map (\<lambda>t. (name t, color t)) fig"
    if "figure colors fdf' = Inr fig'" "unique (map algorithm fdf') = unique (map algorithm fdf)"
    for fdf' :: "'a row list" and fig'
    using a [OF f] a [OF that(1)] that(2) by simp
  from a [OF f] b c show ?thesis by blast
qed

theorem color_by_index_witness:
  "figure [''red''] (take 3 example_df) =
     Inr [\<lparr>name = Some ''A'', x = [5, 10], y = [Num 0.8, Num 0.9], color = ''red''\<rparr>,
          \<lparr>name = Some ''B'', x = [5], y = [Num 0.7], color = ''red''\<rparr>] \<and>
   map (\<lambda>(i, a). (a, [''red''] ! (i mod length [''red''])))
     (enumerate 0 (unique (map algorithm (take 3 example_df)))) = [(Some ''A'', ''red''), (Some ''B'', ''red'')]"
  using color_by_index [OF example_figure_one_color, THEN conjunct1] example_figure_one_color
  by simp

subsection \<open>The empty view\<close>

lemma oversized_noise_slider: "noise_slider oversized_df (Num 0.1) = Num 0.1"
  by (simp add: noise_slider_def slider_def py_min_def py_max_def float_col_min_def
      float_col_max_def oversized_df_def)

lemma oversized_items_slider: "items_slider oversized_df 100 = Inr 100"
  by (simp add: items_slider_def slider_def py_min_def py_max_def oversized_df_def)

lemma oversized_pairs_slider: "pairs_slider oversized_df 4950 100 = Inr 100"
  by (simp add: pairs_slider_def pairs_slider_bounds_def slider_def py_min_def py_max_def
      oversized_df_def)

lemma oversized_filtered: "filtered_df oversized_df (Num 0.1) 100 100 = Inr []"
  by (simp add: filtered_df_def exact_match_def oversized_df_def float_eq_def)

lemma oversized_render:
  "render [''red''] oversized_df (Num 0.1) 100 100 4950 =
     Inr \<lparr>chart = [], title = (Num 0.1, 100, 100), shown = []\<rparr>"
  by (simp add: render_def validate_def oversized_filtered figure_def unique_def)

lemma no_match_warns:
  "pairs_value \<le> max_pairs \<Longrightarrow> exact_match df noise_value items_value pairs_value = [] \<Longrightarrow>
   render colors df noise_value items_value pairs_value max_pairs = Inl EmptySelection"
  by (simp add: render_def validate_def filtered_df_def)

text \<open>
  Claim C2. The emptiness check of line 102 is made on the rows that match the selection,
  before the Top-n filter of line 107. On \<open>oversized_df\<close>, with the selection the sliders
  start from, one row matches and the Top-n filter drops it: the filtered view is empty,
  no warning is given, and the execution completes with a chart of no traces and an
  empty table. (\<open>no_match_warns\<close>: the warning is given when no row matches the
  selection.)
\<close>

theorem empty_view_renders_empty_chart:
  "filter (\<lambda>r. float_eq (noise_level r) (Num 0.1) \<and> num_items r = 100 \<and> num_pairs r = 100 \<and>
               top_n r \<le> 100) oversized_df = [] \<and>
   dashboard [''red''] oversized_df (Num 0.1) 100 100 =
     Inr \<lparr>chart = [], title = (Num 0.1, 100, 100), shown = []\<rparr>"
proof -
  have a: "filter (\<lambda>r. float_eq (noise_level r) (Num 0.1) \<and> num_items r = 100 \<and>
               num_pairs r = 100 \<and> top_n r \<le> 100) oversized_df = []"
    by (simp add: oversized_df_def)
  have m: "max_possible_pairs 100 = Inr 4950" using max_possible_pairs_eq [of 100] by simp
  have b: "dashboard [''red''] oversized_df (Num 0.1) 100 100 =
     Inr \<lparr>chart = [], title = (Num 0.1, 100, 100), shown = []\<rparr>"
    by (simp add: dashboard_def oversized_noise_slider oversized_items_slider m
        oversized_pairs_slider oversized_render)
  from a b show ?thesis by simp
qed

end
